theory Spec2Isabelle
  imports Main "HOL-Library.Sublist"
begin

section \<open>URL path utilities (package shared)\<close>

text \<open>
  Go strings are byte sequences; they are modelled as \<open>string\<close> (a list of 8-bit
  characters). The package builds on four standard-library functions, \<open>path.Clean\<close>,
  \<open>path.Join\<close>, \<open>strings.Trim\<close> and \<open>strings.Split\<close>, which are transcribed here
  from the Go standard library.
\<close>

subsection \<open>path.Clean\<close>

text \<open>
  \<open>path.Clean\<close> reads \<open>path\<close> at index \<open>r\<close> and writes into a buffer \<open>out\<close>; the
  write index \<open>out.w\<close> of the source is \<open>length out\<close> here, and \<open>dotdot\<close> is the index
  below which a \<open>..\<close> element must not backtrack.

  The backtracking loop of the \<open>..\<close> case,
  \<^verbatim>\<open>out.w--; for out.w > dotdot && out.index(out.w) != '/' { out.w-- }\<close>,
  is \<open>backtrack\<close>, started at \<open>length out - 1\<close>: it returns the final write index.
\<close>

function backtrack :: "string \<Rightarrow> nat \<Rightarrow> nat \<Rightarrow> nat" where
  "backtrack out dotdot w =
     (if w > dotdot \<and> out ! w \<noteq> CHR ''/'' then backtrack out dotdot (w - 1) else w)"
  by pat_completeness auto
termination
  by (relation "measure (\<lambda>(out, dotdot, w). w)") auto

declare backtrack.simps [simp del]

text \<open>The element copied by the default case: the bytes from \<open>r\<close> up to the next slash.\<close>

definition element_at :: "string \<Rightarrow> nat \<Rightarrow> string" where
  "element_at path r = takeWhile (\<lambda>c. c \<noteq> CHR ''/'') (drop r path)"

lemma element_at_nonempty:
  "r < length path \<Longrightarrow> path ! r \<noteq> CHR ''/'' \<Longrightarrow> 0 < length (element_at path r)"
  by (cases "drop r path") (auto simp: element_at_def hd_drop_conv_nth dest: arg_cong [where f = hd])

lemma element_at_advances:
  "r < length path \<Longrightarrow> path ! r \<noteq> CHR ''/'' \<Longrightarrow>
   length path - (r + length (element_at path r)) < length path - r"
  using element_at_nonempty [of r path] by linarith

function clean_loop :: "string \<Rightarrow> bool \<Rightarrow> nat \<Rightarrow> string \<Rightarrow> nat \<Rightarrow> string" where
  "clean_loop path rooted r out dotdot =
     (if \<not> r < length path then out
      else if path ! r = CHR ''/'' then
        clean_loop path rooted (r + 1) out dotdot
      else if path ! r = CHR ''.'' \<and> (r + 1 = length path \<or> path ! (r + 1) = CHR ''/'') then
        clean_loop path rooted (r + 1) out dotdot
      else if path ! r = CHR ''.'' \<and> path ! (r + 1) = CHR ''.''
              \<and> (r + 2 = length path \<or> path ! (r + 2) = CHR ''/'') then
        (if length out > dotdot then
           clean_loop path rooted (r + 2)
             (take (backtrack out dotdot (length out - 1)) out) dotdot
         else if \<not> rooted then
           clean_loop path rooted (r + 2)
             ((if length out > 0 then out @ ''/'' else out) @ ''..'')
             (length ((if length out > 0 then out @ ''/'' else out) @ ''..''))
         else clean_loop path rooted (r + 2) out dotdot)
      else
        clean_loop path rooted (r + length (element_at path r))
          ((if rooted \<and> length out \<noteq> 1 \<or> \<not> rooted \<and> length out \<noteq> 0
            then out @ ''/'' else out) @ element_at path r)
          dotdot)"
  by pat_completeness auto
termination
  by (relation "measure (\<lambda>(path, rooted, r, out, dotdot). length path - r)")
    (auto intro: element_at_advances)

declare clean_loop.simps [simp del]

definition Clean :: "string \<Rightarrow> string" where
  "Clean path =
     (if path = '''' then ''.''
      else let rooted = (path ! 0 = CHR ''/'');
               out = (if rooted then clean_loop path rooted 1 ''/'' 1
                      else clean_loop path rooted 0 '''' 0)
           in if length out = 0 then ''.'' else out)"

subsection \<open>path.Join\<close>

text \<open>
  \<open>path.Join\<close> returns the empty string when every element is empty; otherwise it
  appends the elements to a buffer, skipping empty elements while the buffer is empty and
  putting a slash before every element appended to a non-empty buffer, and cleans the
  result.
\<close>

fun join_buf :: "string \<Rightarrow> string list \<Rightarrow> string" where
  "join_buf buf [] = buf"
| "join_buf buf (e # es) =
     (if length buf > 0 \<or> e \<noteq> ''''
      then join_buf ((if length buf > 0 then buf @ ''/'' else buf) @ e) es
      else join_buf buf es)"

definition path_Join :: "string list \<Rightarrow> string" where
  "path_Join elem =
     (if sum_list (map length elem) = 0 then '''' else Clean (join_buf '''' elem))"

subsection \<open>strings.Trim and strings.Split\<close>

text \<open>
  \<open>strings.Trim s cutset\<close> removes from both ends of \<open>s\<close> the bytes that occur in
  \<open>cutset\<close> (the right end first, then the left). The cutset is a set of bytes when it
  is ASCII, which the only cutset of this package, \<open>"/."\<close>, is.
\<close>

definition trimRight :: "string \<Rightarrow> string \<Rightarrow> string" where
  "trimRight s cutset = rev (dropWhile (\<lambda>c. c \<in> set cutset) (rev s))"

definition trimLeft :: "string \<Rightarrow> string \<Rightarrow> string" where
  "trimLeft s cutset = dropWhile (\<lambda>c. c \<in> set cutset) s"

definition strings_Trim :: "string \<Rightarrow> string \<Rightarrow> string" where
  "strings_Trim s cutset =
     (if s = '''' \<or> cutset = '''' then s else trimLeft (trimRight s cutset) cutset)"

text \<open>
  \<open>strings.Split s sep\<close> for a non-empty separator cuts \<open>s\<close> at every occurrence of
  \<open>sep\<close>, found from left to right without overlap, and keeps the empty pieces.
  \<open>split_from sep cur s\<close> has read the piece \<open>cur\<close> so far. With an empty separator Go
  splits after each UTF-8 sequence instead; that mode is outside this model, and the
  package only ever splits at \<open>sepString\<close>.
\<close>

function split_from :: "string \<Rightarrow> string \<Rightarrow> string \<Rightarrow> string list" where
  "split_from sep cur [] = [cur]"
| "split_from sep cur (c # cs) =
     (if sep \<noteq> [] \<and> prefix sep (c # cs)
      then cur # split_from sep [] (drop (length sep) (c # cs))
      else split_from sep (cur @ [c]) cs)"
  by pat_completeness auto
termination
  by (relation "measure (\<lambda>(sep, cur, s). length s)") auto

definition strings_Split :: "string \<Rightarrow> string \<Rightarrow> string list" where
  "strings_Split s sep = split_from sep [] s"

subsection \<open>The package's own functions\<close>

definition sepString :: string where
  "sepString = ''/''"

definition sepStringAndDot :: string where
  "sepStringAndDot = ''/.''"

definition CleanAndSplit :: "string \<Rightarrow> string list" where
  "CleanAndSplit p = strings_Split (strings_Trim (Clean p) sepStringAndDot) sepString"

text \<open>
  \<open>Join\<close> builds \<open>fullParts\<close> by appending \<open>sepString\<close> and then each part in turn
  to an empty slice, and hands it to \<open>path.Join\<close>.
\<close>

definition Join :: "string list \<Rightarrow> string" where
  "Join parts = path_Join (foldl (\<lambda>fullParts part. fullParts @ [part]) ([] @ [sepString]) parts)"

definition IsRoot :: "string \<Rightarrow> bool" where
  "IsRoot p \<longleftrightarrow> p = '''' \<or> p = sepString"

section \<open>The container entrypoint (cmd/containerboot)\<close>

subsection \<open>Errors and process exit\<close>

text \<open>
  A Go \<open>error\<close> is a value: \<open>errors.New msg\<close>, or \<open>fmt.Errorf\<close> with a \<open>%w\<close> verb
  wrapping an error of an outside package (type \<open>'e\<close>). A nil error is \<open>None\<close>.
  \<open>log.Fatalf\<close> ends the process; a function that can reach it returns
  \<open>Inl (Fatalf format err)\<close> instead of a result.
\<close>

datatype 'e go_error = New string | Errorf string 'e

datatype 'e exit = Fatalf string 'e

subsection \<open>The environment\<close>

text \<open>
  The process environment maps variable names to values. \<open>os.LookupEnv\<close> tells an unset
  variable from one set to the empty string; \<open>os.Getenv\<close> returns the empty string for
  both.
\<close>

type_synonym environ = "string \<rightharpoonup> string"

definition LookupEnv :: "environ \<Rightarrow> string \<Rightarrow> string \<times> bool" where
  "LookupEnv env name = (case env name of None \<Rightarrow> ('''', False) | Some v \<Rightarrow> (v, True))"

definition Getenv :: "environ \<Rightarrow> string \<Rightarrow> string" where
  "Getenv env name = fst (LookupEnv env name)"

text \<open>
  \<open>strconv.ParseBool\<close> accepts exactly twelve spellings and returns \<open>false\<close> with a
  syntax error for anything else.
\<close>

datatype num_error = ErrSyntax string string

definition ParseBool :: "string \<Rightarrow> bool \<times> num_error option" where
  "ParseBool str =
     (if str \<in> set [''1'', ''t'', ''T'', ''true'', ''TRUE'', ''True''] then (True, None)
      else if str \<in> set [''0'', ''f'', ''F'', ''false'', ''FALSE'', ''False''] then (False, None)
      else (False, Some (ErrSyntax ''ParseBool'' str)))"

definition defaultEnv :: "environ \<Rightarrow> string \<Rightarrow> string \<Rightarrow> string" where
  "defaultEnv env name defVal =
     (case LookupEnv env name of (v, ok) \<Rightarrow> if ok then v else defVal)"

definition defaultEnvStringPointer :: "environ \<Rightarrow> string \<Rightarrow> string option" where
  "defaultEnvStringPointer env name =
     (case LookupEnv env name of (v, ok) \<Rightarrow> if ok then Some v else None)"

definition defaultEnvBoolPointer :: "environ \<Rightarrow> string \<Rightarrow> bool option" where
  "defaultEnvBoolPointer env name =
     (let v = Getenv env name
      in case ParseBool v of (ret, err) \<Rightarrow> if err \<noteq> None then None else Some ret)"

fun defaultEnvs :: "environ \<Rightarrow> string list \<Rightarrow> string \<Rightarrow> string" where
  "defaultEnvs env [] defVal = defVal"
| "defaultEnvs env (name # names) defVal =
     (case LookupEnv env name of (v, ok) \<Rightarrow> if ok then v else defaultEnvs env names defVal)"

definition defaultBool :: "environ \<Rightarrow> string \<Rightarrow> bool \<Rightarrow> bool" where
  "defaultBool env name defVal =
     (let v = Getenv env name
      in case ParseBool v of (ret, err) \<Rightarrow> if err \<noteq> None then defVal else ret)"

subsection \<open>Settings\<close>

text \<open>The pointer fields \<open>Routes\<close> and \<open>AcceptDNS\<close> are options: \<open>None\<close> is nil.\<close>

record settings =
  AuthKey :: string
  Hostname :: string
  Routes :: "string option"
  ProxyTo :: string
  TailnetTargetIP :: string
  TailnetTargetFQDN :: string
  ServeConfigPath :: string
  DaemonExtraArgs :: string
  ExtraArgs :: string
  InKubernetes :: bool
  UserspaceMode :: bool
  StateDir :: string
  AcceptDNS :: "bool option"
  KubeSecret :: string
  SOCKSProxyAddr :: string
  HTTPProxyAddr :: string
  Socket :: string
  AuthOnce :: bool
  Root :: string
  KubernetesCanPatch :: bool
  TailscaledConfigFilePath :: string
  AllowProxyingClusterTrafficViaIngress :: bool
  PodIP :: string

text \<open>
  The settings that \<open>main\<close> reads from the environment before it validates them.
  \<open>KubernetesCanPatch\<close> is not set there and keeps Go's zero value.
\<close>

definition main_cfg :: "environ \<Rightarrow> settings" where
  "main_cfg env =
     \<lparr> AuthKey = defaultEnvs env [''TS_AUTHKEY'', ''TS_AUTH_KEY''] '''',
       Hostname = defaultEnv env ''TS_HOSTNAME'' '''',
       Routes = defaultEnvStringPointer env ''TS_ROUTES'',
       ProxyTo = defaultEnv env ''TS_DEST_IP'' '''',
       TailnetTargetIP = defaultEnv env ''TS_TAILNET_TARGET_IP'' '''',
       TailnetTargetFQDN = defaultEnv env ''TS_TAILNET_TARGET_FQDN'' '''',
       ServeConfigPath = defaultEnv env ''TS_SERVE_CONFIG'' '''',
       DaemonExtraArgs = defaultEnv env ''TS_TAILSCALED_EXTRA_ARGS'' '''',
       ExtraArgs = defaultEnv env ''TS_EXTRA_ARGS'' '''',
       InKubernetes = (Getenv env ''KUBERNETES_SERVICE_HOST'' \<noteq> ''''),
       UserspaceMode = defaultBool env ''TS_USERSPACE'' True,
       StateDir = defaultEnv env ''TS_STATE_DIR'' '''',
       AcceptDNS = defaultEnvBoolPointer env ''TS_ACCEPT_DNS'',
       KubeSecret = defaultEnv env ''TS_KUBE_SECRET'' ''tailscale'',
       SOCKSProxyAddr = defaultEnv env ''TS_SOCKS5_SERVER'' '''',
       HTTPProxyAddr = defaultEnv env ''TS_OUTBOUND_HTTP_PROXY_LISTEN'' '''',
       Socket = defaultEnv env ''TS_SOCKET'' ''/tmp/tailscaled.sock'',
       AuthOnce = defaultBool env ''TS_AUTH_ONCE'' False,
       Root = defaultEnv env ''TS_TEST_ONLY_ROOT'' ''/'',
       KubernetesCanPatch = False,
       TailscaledConfigFilePath = defaultEnv env ''EXPERIMENTAL_TS_CONFIGFILE_PATH'' '''',
       AllowProxyingClusterTrafficViaIngress =
         defaultBool env ''EXPERIMENTAL_ALLOW_PROXYING_CLUSTER_TRAFFIC_VIA_INGRESS'' False,
       PodIP = defaultEnv env ''POD_IP'' '''' \<rparr>"

subsection \<open>Validation\<close>

text \<open>
  \<open>conffile.Load\<close> belongs to a package outside these files; \<open>validate\<close> only looks at
  whether it returns an error, so it is the parameter \<open>Load\<close>: the error of loading the
  file at a path, \<open>None\<close> when the file loads.
\<close>

definition validate :: "(string \<Rightarrow> 'e option) \<Rightarrow> settings \<Rightarrow> 'e go_error option" where
  "validate Load s =
     (case (if TailscaledConfigFilePath s \<noteq> '''' then Load (TailscaledConfigFilePath s) else None) of
        Some err \<Rightarrow> Some (Errorf ''error validating tailscaled configfile contents: %w'' err)
      | None \<Rightarrow>
     if ProxyTo s \<noteq> '''' \<and> UserspaceMode s then
       Some (New ''TS_DEST_IP is not supported with TS_USERSPACE'')
     else if TailnetTargetIP s \<noteq> '''' \<and> UserspaceMode s then
       Some (New ''TS_TAILNET_TARGET_IP is not supported with TS_USERSPACE'')
     else if TailnetTargetFQDN s \<noteq> '''' \<and> UserspaceMode s then
       Some (New ''TS_TAILNET_TARGET_FQDN is not supported with TS_USERSPACE'')
     else if TailnetTargetFQDN s \<noteq> '''' \<and> TailnetTargetIP s \<noteq> '''' then
       Some (New ''Both TS_TAILNET_TARGET_IP and TS_TAILNET_FQDN cannot be set'')
     else if TailscaledConfigFilePath s \<noteq> ''''
             \<and> (AcceptDNS s \<noteq> None \<or> AuthKey s \<noteq> '''' \<or> Routes s \<noteq> None
                  \<or> ExtraArgs s \<noteq> '''' \<or> Hostname s \<noteq> '''') then
       Some (New ''EXPERIMENTAL_TS_CONFIGFILE_PATH cannot be set in combination with TS_HOSTNAME, TS_EXTRA_ARGS, TS_AUTHKEY, TS_ROUTES, TS_ACCEPT_DNS.'')
     else if AllowProxyingClusterTrafficViaIngress s \<and> UserspaceMode s then
       Some (New ''EXPERIMENTAL_ALLOW_PROXYING_CLUSTER_TRAFFIC_VIA_INGRESS is not supported in userspace mode'')
     else if AllowProxyingClusterTrafficViaIngress s \<and> ServeConfigPath s = '''' then
       Some (New ''EXPERIMENTAL_ALLOW_PROXYING_CLUSTER_TRAFFIC_VIA_INGRESS is set but this is not a cluster ingress proxy'')
     else if AllowProxyingClusterTrafficViaIngress s \<and> PodIP s = '''' then
       Some (New ''EXPERIMENTAL_ALLOW_PROXYING_CLUSTER_TRAFFIC_VIA_INGRESS is set but POD_IP is not set'')
     else None)"

subsection \<open>The argv of tailscaled\<close>

text \<open>
  \<open>tailscaledArgs\<close> takes a pointer to the settings and may write \<open>StateDir\<close>, so the
  model returns the settings with the argv. The \<open>switch\<close> has three cases; the first
  falls through into the body of the second.

  Two things come from outside. \<open>ensureTunFile\<close> works on the file system; only whether it
  fails matters here, so it is a parameter giving its error for a root directory
  (\<open>None\<close> on success). \<open>strings.Fields\<close> of the standard library is the parameter
  \<open>Fields\<close>.
\<close>

definition state_args :: "settings \<Rightarrow> string list \<Rightarrow> string list \<times> settings" where
  "state_args cfg args =
     (if InKubernetes cfg \<and> KubeSecret cfg \<noteq> '''' then
        (let args1 = args @ [''--state=kube:'' @ KubeSecret cfg];
             cfg1 = (if StateDir cfg = '''' then cfg\<lparr>StateDir := ''/tmp''\<rparr> else cfg)
         in (args1 @ [''--statedir='' @ StateDir cfg1], cfg1))
      else if StateDir cfg \<noteq> '''' then
        (args @ [''--statedir='' @ StateDir cfg], cfg)
      else
        (args @ [''--state=mem:'', ''--statedir=/tmp''], cfg))"

text \<open>The arguments appended after the tun device has been dealt with.\<close>

definition proxy_args :: "(string \<Rightarrow> string list) \<Rightarrow> settings \<Rightarrow> string list \<Rightarrow> string list" where
  "proxy_args Fields cfg args =
     (let args1 = (if SOCKSProxyAddr cfg \<noteq> ''''
                   then args @ [''--socks5-server='' @ SOCKSProxyAddr cfg] else args);
          args2 = (if HTTPProxyAddr cfg \<noteq> ''''
                   then args1 @ [''--outbound-http-proxy-listen='' @ HTTPProxyAddr cfg]
                   else args1);
          args3 = (if TailscaledConfigFilePath cfg \<noteq> ''''
                   then args2 @ [''--config='' @ TailscaledConfigFilePath cfg] else args2)
      in if DaemonExtraArgs cfg \<noteq> '''' then args3 @ Fields (DaemonExtraArgs cfg) else args3)"

definition tailscaledArgs ::
  "(string \<Rightarrow> 'e option) \<Rightarrow> (string \<Rightarrow> string list) \<Rightarrow> settings
   \<Rightarrow> 'e exit + string list \<times> settings" where
  "tailscaledArgs ensureTunFile Fields cfg0 =
     (case state_args cfg0 [''--socket='' @ Socket cfg0] of (args, cfg) \<Rightarrow>
        if UserspaceMode cfg then
          Inr (proxy_args Fields cfg (args @ [''--tun=userspace-networking'']), cfg)
        else
          (case ensureTunFile (Root cfg) of
             Some err \<Rightarrow> Inl (Fatalf ''ensuring that /dev/net/tun exists: %v'' err)
           | None \<Rightarrow> Inr (proxy_args Fields cfg args, cfg)))"

text \<open>
  \<open>strings.Fields\<close> on a string of ASCII bytes: the maximal runs of bytes other than
  space, tab, newline, vertical tab, form feed and carriage return. (On other strings Go
  splits at the Unicode spaces as well.) \<open>fields_from cur s\<close> has read the field
  \<open>cur\<close> so far.
\<close>

definition asciiSpace :: "char \<Rightarrow> bool" where
  "asciiSpace c \<longleftrightarrow> c \<in> set [CHR 0x09, CHR 0x0A, CHR 0x0B, CHR 0x0C, CHR 0x0D, CHR 0x20]"

fun fields_from :: "string \<Rightarrow> string \<Rightarrow> string list" where
  "fields_from cur [] = (if cur = [] then [] else [cur])"
| "fields_from cur (c # cs) =
     (if asciiSpace c then (if cur = [] then fields_from [] cs else cur # fields_from [] cs)
      else fields_from (cur @ [c]) cs)"

definition Fields_ascii :: "string \<Rightarrow> string list" where
  "Fields_ascii s = fields_from [] s"

section \<open>The WebDAV stat cache (tailfs/tailfsimpl/webdavfs)\<close>

text \<open>
  The cache maps a path to the \<open>fs.FileInfo\<close> last seen for it. The model keeps the
  items that \<open>cache.Get\<close> finds at the time of the call; expiry after the time to live
  and the locking around each access are outside it. \<open>fs.FileInfo\<close> is the type
  \<open>'fi\<close>.

  \<open>fetch\<close> is a function value that asks the server; it acts on a world \<open>'w\<close> and
  returns Go's pair of a file info and an error (\<open>None\<close> is nil).
\<close>

type_synonym 'fi statCache = "string \<rightharpoonup> 'fi"

definition getOrFetch ::
  "'fi statCache \<Rightarrow> string \<Rightarrow> (string \<Rightarrow> 'w \<Rightarrow> ('fi \<times> 'e option) \<times> 'w) \<Rightarrow> 'w
   \<Rightarrow> ('fi \<times> 'e option) \<times> 'fi statCache \<times> 'w" where
  "getOrFetch c name fetch w =
     (case c name of
        Some item \<Rightarrow> ((item, None), c, w)
      | None \<Rightarrow>
          (case fetch name w of
             ((fi, err), w') \<Rightarrow>
               if err = None then ((fi, err), c(name \<mapsto> fi), w') else ((fi, err), c, w')))"

section \<open>The Service reconciler (cmd/k8s-operator)\<close>

subsection \<open>Services and names\<close>

text \<open>
  The fields of \<open>corev1.Service\<close> that the reconciler reads or writes. A nil
  \<open>DeletionTimestamp\<close> or \<open>LoadBalancerClass\<close> is \<open>None\<close>; a time is its distance from
  Go's zero time, so that \<open>IsZero\<close> holds of \<open>0\<close> alone. Reading a Go map at a key it
  does not hold gives the empty string.
\<close>

record service =
  Name :: string
  Namespace :: string
  UID :: string
  Finalizers :: "string list"
  Annotations :: "string \<rightharpoonup> string"
  DeletionTimestamp :: "int option"
  ClusterIP :: string
  Type :: string
  LoadBalancerClass :: "string option"

definition annotation :: "service \<Rightarrow> string \<Rightarrow> string" where
  "annotation svc key = (case Annotations svc key of None \<Rightarrow> '''' | Some v \<Rightarrow> v)"

definition IsZero :: "int option \<Rightarrow> bool" where
  "IsZero t = (case t of None \<Rightarrow> True | Some time \<Rightarrow> time = 0)"

text \<open>
  The annotation, label and finalizer names are constants declared in another file of the
  package. The functions take them as a record.
\<close>

record names =
  AnnotationExpose :: string
  AnnotationTailnetTargetIP :: string
  AnnotationTailnetTargetFQDN :: string
  annotationTailnetTargetIPOld :: string
  FinalizerName :: string
  LabelManaged :: string
  LabelParentName :: string
  LabelParentNamespace :: string
  LabelParentType :: string

definition childResourceLabels :: "names \<Rightarrow> string \<Rightarrow> string \<Rightarrow> string \<Rightarrow> string \<rightharpoonup> string" where
  "childResourceLabels K name ns typ =
     [LabelManaged K \<mapsto> ''true'',
      LabelParentName K \<mapsto> name,
      LabelParentNamespace K \<mapsto> ns,
      LabelParentType K \<mapsto> typ]"

subsection \<open>MagicDNS names\<close>

text \<open>
  \<open>isMagicDNSName\<close> matches its argument against the regular expression
  \<^verbatim>\<open>^[a-zA-Z0-9-]+\.[a-zA-Z0-9-]+\.ts\.net\.?$\<close>. The expression is anchored at both
  ends, so the whole string has to match. Regular expressions over bytes are matched here
  by derivatives: \<open>deriv c r\<close> matches what \<open>r\<close> matches after a leading \<open>c\<close>.
\<close>

datatype rx =
  Zero | One | Byte char | Range char char | Alt rx rx | Seq rx rx | Star rx | Plus rx | Opt rx

fun nullable :: "rx \<Rightarrow> bool" where
  "nullable Zero = False"
| "nullable One = True"
| "nullable (Byte b) = False"
| "nullable (Range lo hi) = False"
| "nullable (Alt r s) = (nullable r \<or> nullable s)"
| "nullable (Seq r s) = (nullable r \<and> nullable s)"
| "nullable (Star r) = True"
| "nullable (Plus r) = nullable r"
| "nullable (Opt r) = True"

fun deriv :: "char \<Rightarrow> rx \<Rightarrow> rx" where
  "deriv c Zero = Zero"
| "deriv c One = Zero"
| "deriv c (Byte b) = (if c = b then One else Zero)"
| "deriv c (Range lo hi) =
     (if (of_char lo :: nat) \<le> of_char c \<and> (of_char c :: nat) \<le> of_char hi then One else Zero)"
| "deriv c (Alt r s) = Alt (deriv c r) (deriv c s)"
| "deriv c (Seq r s) =
     (if nullable r then Alt (Seq (deriv c r) s) (deriv c s) else Seq (deriv c r) s)"
| "deriv c (Star r) = Seq (deriv c r) (Star r)"
| "deriv c (Plus r) = Seq (deriv c r) (Star r)"
| "deriv c (Opt r) = deriv c r"

definition MatchString :: "rx \<Rightarrow> string \<Rightarrow> bool" where
  "MatchString r s = nullable (fold deriv s r)"

fun literal :: "string \<Rightarrow> rx" where
  "literal [] = One"
| "literal (c # cs) = Seq (Byte c) (literal cs)"

definition label_byte :: rx where
  "label_byte =
     Alt (Range (CHR ''a'') (CHR ''z''))
       (Alt (Range (CHR ''A'') (CHR ''Z''))
         (Alt (Range (CHR ''0'') (CHR ''9'')) (Byte (CHR ''-''))))"

definition validMagicDNSName :: rx where
  "validMagicDNSName =
     Seq (Plus label_byte)
       (Seq (Byte (CHR ''.''))
         (Seq (Plus label_byte)
           (Seq (literal ''.ts.net'') (Opt (Byte (CHR ''.''))))))"

definition isMagicDNSName :: "string \<Rightarrow> bool" where
  "isMagicDNSName name = MatchString validMagicDNSName name"

subsection \<open>Validation of a Service\<close>

text \<open>
  \<open>validateService\<close> appends to a slice of violations. The first \<open>append\<close> is given
  three strings: the message with its two \<open>%s\<close> verbs, and the two annotation names. The
  second is given one string made by \<open>fmt.Sprintf\<close>, whose \<open>%q\<close> verb quotes the name as
  a Go string literal; that quoting is the parameter \<open>Quote\<close>.
\<close>

definition validateService :: "names \<Rightarrow> (string \<Rightarrow> string) \<Rightarrow> service \<Rightarrow> string list" where
  "validateService K Quote svc =
     (let violations = [];
          violations1 =
            (if annotation svc (AnnotationTailnetTargetFQDN K) \<noteq> ''''
                \<and> annotation svc (AnnotationTailnetTargetIP K) \<noteq> ''''
             then violations @ [''only one of annotations %s and %s can be set'',
                                AnnotationTailnetTargetIP K, AnnotationTailnetTargetFQDN K]
             else violations);
          fqdn = annotation svc (AnnotationTailnetTargetFQDN K)
      in if fqdn \<noteq> '''' \<and> \<not> isMagicDNSName fqdn
         then violations1 @ [''invalid value of annotation '' @ AnnotationTailnetTargetFQDN K
                              @ '': '' @ Quote fqdn
                              @ '' does not appear to be a valid MagicDNS name'']
         else violations1)"

subsection \<open>What a Service asks for\<close>

record 'set ServiceReconciler =
  isDefaultLoadBalancer :: bool
  managedIngressProxies :: 'set
  managedEgressProxies :: 'set
  gaugeIngressProxies :: int
  gaugeEgressProxies :: int

text \<open>
  The reconciler holds two sets of UIDs (type \<open>set.Slice\<close> of another package, here
  \<open>'set\<close>) that feed two gauges. The gauges are package variables; the model keeps them
  with the reconciler. The Service is never nil where these functions are called.
\<close>

definition hasLoadBalancerClass :: "'set ServiceReconciler \<Rightarrow> service \<Rightarrow> bool" where
  "hasLoadBalancerClass a svc \<longleftrightarrow>
     Type svc = ''LoadBalancer''
     \<and> (case LoadBalancerClass svc of
          Some class \<Rightarrow> class = ''tailscale''
        | None \<Rightarrow> isDefaultLoadBalancer a)"

definition hasExposeAnnotation :: "names \<Rightarrow> service \<Rightarrow> bool" where
  "hasExposeAnnotation K svc \<longleftrightarrow> annotation svc (AnnotationExpose K) = ''true''"

definition shouldExpose :: "names \<Rightarrow> 'set ServiceReconciler \<Rightarrow> service \<Rightarrow> bool" where
  "shouldExpose K a svc =
     (if ClusterIP svc = '''' \<or> ClusterIP svc = ''None'' then False
      else hasLoadBalancerClass a svc \<or> hasExposeAnnotation K svc)"

definition tailnetTargetAnnotation :: "names \<Rightarrow> service \<Rightarrow> string" where
  "tailnetTargetAnnotation K svc =
     (let ip = annotation svc (AnnotationTailnetTargetIP K)
      in if ip \<noteq> '''' then ip else annotation svc (annotationTailnetTargetIPOld K))"

subsection \<open>The cluster and the reconciler's bookkeeping\<close>

text \<open>
  The reconciler talks to the API server through a client, to the StatefulSet reconciler
  \<open>ssr\<close>, and to the \<open>set.Slice\<close> type; none of them is part of these files. They are
  operations on a world \<open>'w\<close> (the cluster) with errors of type \<open>'e\<close>:
  \<^item> \<open>Get\<close> reads the Service of a namespace and name into a fresh object;
  \<^item> \<open>Update\<close> writes a Service and leaves the object as the server answered;
  \<^item> \<open>Cleanup\<close> is \<open>ssr.Cleanup\<close>, which reports whether the child resources are gone;
  \<^item> \<open>IsNotFound\<close> is \<open>apierrors.IsNotFound\<close>;
  \<^item> \<open>Remove\<close> and \<open>Len\<close> are the methods of \<open>set.Slice\<close>.
  Log lines are not modelled.
\<close>

record ('w, 'e, 'set) cluster =
  Get :: "string \<times> string \<Rightarrow> 'w \<Rightarrow> ('e option \<times> service) \<times> 'w"
  Update :: "service \<Rightarrow> 'w \<Rightarrow> ('e option \<times> service) \<times> 'w"
  Cleanup :: "(string \<rightharpoonup> string) \<Rightarrow> 'w \<Rightarrow> (bool \<times> 'e option) \<times> 'w"
  IsNotFound :: "'e option \<Rightarrow> bool"
  Remove :: "string \<Rightarrow> 'set \<Rightarrow> 'set"
  Len :: "'set \<Rightarrow> int"

text \<open>
  The four statements that \<open>maybeCleanup\<close> runs under the mutex: the UID leaves both
  sets and both gauges are set to the sizes of the sets.
\<close>

definition untrack ::
  "('w, 'e, 'set) cluster \<Rightarrow> 'set ServiceReconciler \<Rightarrow> string \<Rightarrow> 'set ServiceReconciler" where
  "untrack ops a uid =
     (let a1 = a\<lparr>managedIngressProxies := Remove ops uid (managedIngressProxies a)\<rparr>;
          a2 = a1\<lparr>managedEgressProxies := Remove ops uid (managedEgressProxies a1)\<rparr>;
          a3 = a2\<lparr>gaugeIngressProxies := Len ops (managedIngressProxies a2)\<rparr>
      in a3\<lparr>gaugeEgressProxies := Len ops (managedEgressProxies a3)\<rparr>)"

subsection \<open>Cleanup\<close>

text \<open>
  \<open>slices.Index\<close> returns the index of the first element equal to \<open>v\<close>, or \<open>-1\<close>;
  \<open>index_from s v i\<close> is the loop with \<open>i\<close> elements behind it.
\<close>

fun index_from :: "'a list \<Rightarrow> 'a \<Rightarrow> int \<Rightarrow> int" where
  "index_from [] v i = - 1"
| "index_from (x # xs) v i = (if v = x then i else index_from xs v (i + 1))"

definition slices_Index :: "'a list \<Rightarrow> 'a \<Rightarrow> int" where
  "slices_Index s v = index_from s v 0"

text \<open>
  \<open>maybeCleanup\<close> returns its error together with the Service object, the reconciler and
  the world as it leaves them. \<open>finish_cleanup\<close> is what follows the call of \<open>Update\<close>.
\<close>

definition finish_cleanup ::
  "('w, 'e, 'set) cluster \<Rightarrow> 'set ServiceReconciler \<Rightarrow> ('e option \<times> service) \<times> 'w
   \<Rightarrow> 'e go_error option \<times> service \<times> 'set ServiceReconciler \<times> 'w" where
  "finish_cleanup ops a updated =
     (case updated of
        ((Some err, svc), w) \<Rightarrow> (Some (Errorf ''failed to remove finalizer: %w'' err), svc, a, w)
      | ((None, svc), w) \<Rightarrow> (None, svc, untrack ops a (UID svc), w))"

definition maybeCleanup ::
  "('w, 'e, 'set) cluster \<Rightarrow> names \<Rightarrow> 'set ServiceReconciler \<Rightarrow> service \<Rightarrow> 'w
   \<Rightarrow> 'e go_error option \<times> service \<times> 'set ServiceReconciler \<times> 'w" where
  "maybeCleanup ops K a svc w =
     (let ix = slices_Index (Finalizers svc) (FinalizerName K)
      in if ix < 0 then (None, svc, untrack ops a (UID svc), w)
         else
           (case Cleanup ops (childResourceLabels K (Name svc) (Namespace svc) ''svc'') w of
              ((done, Some err), w1) \<Rightarrow> (Some (Errorf ''failed to cleanup: %w'' err), svc, a, w1)
            | ((done, None), w1) \<Rightarrow>
                if \<not> done then (None, svc, a, w1)
                else finish_cleanup ops a
                       (Update ops
                          (svc\<lparr>Finalizers := take (nat ix) (Finalizers svc)
                                              @ drop (nat (ix + 1)) (Finalizers svc)\<rparr>)
                          w1)))"

subsection \<open>Reconcile\<close>

text \<open>
  \<open>reconcile.Result\<close> has a requeue flag and a delay; \<open>Reconcile\<close> only ever returns the
  empty one. \<open>maybeProvision\<close> drives the StatefulSet reconciler; \<open>Reconcile\<close> hands its
  error on, so it is the parameter \<open>maybeProvision\<close> here.
\<close>

record Result =
  Requeue :: bool
  RequeueAfter :: int

definition empty_Result :: Result where
  "empty_Result = \<lparr>Requeue = False, RequeueAfter = 0\<rparr>"

definition Reconcile ::
  "('w, 'e, 'set) cluster \<Rightarrow> names
   \<Rightarrow> ('set ServiceReconciler \<Rightarrow> service \<Rightarrow> 'w \<Rightarrow> 'e go_error option \<times> 'set ServiceReconciler \<times> 'w)
   \<Rightarrow> 'set ServiceReconciler \<Rightarrow> string \<times> string \<Rightarrow> 'w
   \<Rightarrow> (Result \<times> 'e go_error option) \<times> 'set ServiceReconciler \<times> 'w" where
  "Reconcile ops K maybeProvision a req w =
     (case Get ops req w of
        ((err, svc), w1) \<Rightarrow>
          if IsNotFound ops err then ((empty_Result, None), a, w1)
          else
            (case err of
               Some e \<Rightarrow> ((empty_Result, Some (Errorf ''failed to get svc: %w'' e)), a, w1)
             | None \<Rightarrow>
                 (let targetIP = tailnetTargetAnnotation K svc;
                      targetFQDN = annotation svc (AnnotationTailnetTargetFQDN K)
                  in if \<not> IsZero (DeletionTimestamp svc)
                        \<or> \<not> shouldExpose K a svc \<and> targetIP = '''' \<and> targetFQDN = ''''
                     then (case maybeCleanup ops K a svc w1 of
                             (err, svc', a', w') \<Rightarrow> ((empty_Result, err), a', w'))
                     else (case maybeProvision a svc w1 of
                             (err, a', w') \<Rightarrow> ((empty_Result, err), a', w')))))"

section \<open>A cluster to run the reconciler on\<close>

text \<open>
  An instance of the names, spelled as the comments of the reconciler and the labels in
  the operator's tests have them, and a cluster that writes down every call made to it.
  \<open>set.Slice\<close> is a list without the UID removed. Its \<open>Get\<close> either finds the given
  Service or reports that there is none.
\<close>

definition example_names :: names where
  "example_names =
     \<lparr> AnnotationExpose = ''tailscale.com/expose'',
       AnnotationTailnetTargetIP = ''tailscale.com/tailnet-ip'',
       AnnotationTailnetTargetFQDN = ''tailscale.com/tailnet-fqdn'',
       annotationTailnetTargetIPOld = ''tailscale.com/ts-tailnet-target-ip'',
       FinalizerName = ''tailscale.com/finalizer'',
       LabelManaged = ''tailscale.com/managed'',
       LabelParentName = ''tailscale.com/parent-resource'',
       LabelParentNamespace = ''tailscale.com/parent-resource-ns'',
       LabelParentType = ''tailscale.com/parent-resource-type'' \<rparr>"

definition example_service :: service where
  "example_service =
     \<lparr> Name = ''web'', Namespace = ''default'', UID = ''1234-UID'',
       Finalizers = [''example.com/keep'', ''tailscale.com/finalizer'', ''example.com/audit'',
                     ''tailscale.com/finalizer''],
       Annotations = Map.empty, DeletionTimestamp = Some 63800000000,
       ClusterIP = ''10.20.30.40'', Type = ''ClusterIP'', LoadBalancerClass = None \<rparr>"

definition zero_service :: service where
  "zero_service =
     \<lparr> Name = '''', Namespace = '''', UID = '''', Finalizers = [], Annotations = Map.empty,
       DeletionTimestamp = None, ClusterIP = '''', Type = '''', LoadBalancerClass = None \<rparr>"

datatype call = GetCall "string \<times> string" | UpdateCall service | CleanupCall | ProvisionCall

definition recording_cluster :: "service option \<Rightarrow> (call list, string, string list) cluster" where
  "recording_cluster stored =
     \<lparr> Get = (\<lambda>req w. (case stored of
                           None \<Rightarrow> ((Some ''NotFound'', zero_service), w @ [GetCall req])
                         | Some svc \<Rightarrow> ((None, svc), w @ [GetCall req]))),
       Update = (\<lambda>svc w. ((None, svc), w @ [UpdateCall svc])),
       Cleanup = (\<lambda>labels w. ((True, None), w @ [CleanupCall])),
       IsNotFound = (\<lambda>err. err = Some ''NotFound''),
       Remove = (\<lambda>uid s. removeAll uid s),
       Len = (\<lambda>s. int (length s)) \<rparr>"

definition recording_provision ::
  "string list ServiceReconciler \<Rightarrow> service \<Rightarrow> call list
   \<Rightarrow> string go_error option \<times> string list ServiceReconciler \<times> call list" where
  "recording_provision a svc w = (None, a, w @ [ProvisionCall])"

definition example_reconciler :: "string list ServiceReconciler" where
  "example_reconciler =
     \<lparr> isDefaultLoadBalancer = False, managedIngressProxies = [''1234-UID''],
       managedEgressProxies = [], gaugeIngressProxies = 1, gaugeEgressProxies = 0 \<rparr>"

section \<open>Properties of the URL path utilities\<close>

subsection \<open>The cleaning loop\<close>

lemma backtrack_lower: "dotdot \<le> w \<Longrightarrow> dotdot \<le> backtrack out dotdot w"
  by (induction out dotdot w rule: backtrack.induct) (subst backtrack.simps, auto)

text \<open>
  On a rooted path the buffer starts as \<open>"/"\<close> with \<open>dotdot = 1\<close>, and no step of
  the loop touches that first byte: a \<open>..\<close> element backtracks no further than
  \<open>dotdot\<close>.
\<close>

lemma clean_loop_rooted:
  "out \<noteq> [] \<Longrightarrow> hd out = CHR ''/'' \<Longrightarrow>
   clean_loop path True r out 1 \<noteq> [] \<and> hd (clean_loop path True r out 1) = CHR ''/''"
proof (induction path True r out "1::nat" rule: clean_loop.induct)
  case (1 path r out)
  have bt: "length out > 1 \<Longrightarrow> 1 \<le> backtrack out 1 (length out - 1)"
    by (rule backtrack_lower) simp
  show ?case
    apply (subst (1 2) clean_loop.simps)
    using 1 bt by (auto simp: hd_append)
qed

text \<open>A run of slashes up to the end of the path writes nothing.\<close>

lemma clean_loop_slashes:
  "\<forall>i. r \<le> i \<and> i < length path \<longrightarrow> path ! i = CHR ''/'' \<Longrightarrow>
   clean_loop path rooted r out dotdot = out"
proof (induction path rooted r out dotdot rule: clean_loop.induct)
  case (1 path rooted r out dotdot)
  show ?case
    apply (subst clean_loop.simps)
    using 1 by auto
qed

lemma Clean_rooted: "Clean (CHR ''/'' # s) \<noteq> [] \<and> hd (Clean (CHR ''/'' # s)) = CHR ''/''"
  using clean_loop_rooted [of "''/''" "CHR ''/'' # s" 1] by (simp add: Clean_def)

lemma Clean_slashes: "Clean (CHR ''/'' # replicate n (CHR ''/'')) = ''/''"
proof -
  have "clean_loop (CHR ''/'' # replicate n (CHR ''/'')) True 1 ''/'' 1 = ''/''"
    by (rule clean_loop_slashes) (auto simp: nth_Cons')
  then show ?thesis by (simp add: Clean_def)
qed

subsection \<open>Joining\<close>

lemma fullParts_eq: "foldl (\<lambda>fullParts part. fullParts @ [part]) xs parts = xs @ parts"
  by (induction parts arbitrary: xs) auto

lemma join_buf_nonempty:
  "buf \<noteq> [] \<Longrightarrow> join_buf buf es = buf @ concat (map (\<lambda>e. CHR ''/'' # e) es)"
  by (induction es arbitrary: buf) auto

lemma path_Join_rooted:
  "path_Join (''/'' # parts) = Clean (CHR ''/'' # concat (map (\<lambda>e. CHR ''/'' # e) parts))"
  by (simp add: path_Join_def join_buf_nonempty)

lemma concat_all_empty:
  "\<forall>p\<in>set parts. p = '''' \<Longrightarrow>
   concat (map (\<lambda>e. CHR ''/'' # e) parts) = replicate (length parts) (CHR ''/'')"
  by (induction parts) auto

text \<open>
  C6: \<open>Join parts\<close> is \<open>path.Join\<close> of the list \<open>"/"\<close> followed by \<open>parts\<close>. Hence
  the result always begins with a slash, \<open>Join\<close> of no parts is exactly \<open>"/"\<close>, and so
  is \<open>Join\<close> of parts that are all empty strings.
\<close>

theorem Join_leading_slash:
  "Join parts = path_Join (''/'' # parts)
   \<and> (\<exists>rest. Join parts = CHR ''/'' # rest)
   \<and> Join [] = ''/''
   \<and> ((\<forall>p\<in>set parts. p = '''') \<longrightarrow> Join parts = ''/'')"
proof -
  have eq: "Join parts = path_Join (''/'' # parts)" for parts
    by (simp add: Join_def sepString_def fullParts_eq)
  have lead: "\<exists>rest. Join parts = CHR ''/'' # rest"
    using Clean_rooted [of "concat (map (\<lambda>e. CHR ''/'' # e) parts)"]
    by (cases "Join parts") (auto simp: eq path_Join_rooted)
  have empties: "Join parts = ''/''" if "\<forall>p\<in>set parts. p = ''''" for parts
    using that by (simp add: eq path_Join_rooted concat_all_empty Clean_slashes)
  have none: "Join [] = ''/''"
    using empties [of "[]"] by simp
  from eq lead none empties show ?thesis by blast
qed

theorem Join_leading_slash_witness:
  "list_all (\<lambda>p. p = '''') ['''', ''''] \<and> Join ['''', ''''] = ''/''"
proof -
  have allempty: "\<forall>p\<in>set ['''', '''']. p = ''''"
    by simp
  with Join_leading_slash [of "['''', '''']"] have "Join ['''', ''''] = ''/''"
    by blast
  then show ?thesis
    by simp
qed

subsection \<open>Cleaning and splitting\<close>

lemma split_from_nonempty: "split_from sep cur s \<noteq> []"
  by (induction sep cur s rule: split_from.induct) auto

text \<open>
  What \<open>strings.Trim\<close> leaves, if anything, neither starts nor ends with a byte of
  the cutset; the first piece of a split is what comes before the first separator, and the
  last piece what comes after the last.
\<close>

lemma trimRight_last:
  "trimRight s cutset \<noteq> [] \<Longrightarrow> last (trimRight s cutset) \<notin> set cutset"
proof -
  assume ne: "trimRight s cutset \<noteq> []"
  then have "dropWhile (\<lambda>c. c \<in> set cutset) (rev s) \<noteq> []"
    by (simp add: trimRight_def)
  then have "hd (dropWhile (\<lambda>c. c \<in> set cutset) (rev s)) \<notin> set cutset"
    by (rule hd_dropWhile)
  then show ?thesis
    by (simp add: trimRight_def last_rev)
qed

lemma trimLeft_ends:
  assumes "trimLeft u cutset \<noteq> []" and "u \<noteq> [] \<Longrightarrow> last u \<notin> set cutset"
  shows "hd (trimLeft u cutset) \<notin> set cutset \<and> last (trimLeft u cutset) \<notin> set cutset"
proof -
  have "u = takeWhile (\<lambda>c. c \<in> set cutset) u @ trimLeft u cutset"
    by (simp add: trimLeft_def)
  with assms(1) have "last u = last (trimLeft u cutset)"
    by (metis last_appendR)
  moreover from assms(1) have "u \<noteq> []"
    by (auto simp: trimLeft_def)
  moreover have "hd (trimLeft u cutset) \<notin> set cutset"
    using assms(1) unfolding trimLeft_def by (rule hd_dropWhile)
  ultimately show ?thesis
    using assms(2) by simp
qed

lemma strings_Trim_ends:
  assumes "strings_Trim s cutset \<noteq> []" and "cutset \<noteq> []"
  shows "hd (strings_Trim s cutset) \<notin> set cutset \<and> last (strings_Trim s cutset) \<notin> set cutset"
proof -
  from assms have eq: "strings_Trim s cutset = trimLeft (trimRight s cutset) cutset"
    by (auto simp: strings_Trim_def)
  show ?thesis
    unfolding eq
    by (rule trimLeft_ends) (use assms eq trimRight_last in auto)
qed

lemma split_from_hd: "hd (split_from [c] cur s) = cur @ takeWhile (\<lambda>x. x \<noteq> c) s"
  by (induction s arbitrary: cur) auto

lemma split_from_last:
  "last (split_from [c] cur s) =
     (if c \<in> set s then rev (takeWhile (\<lambda>x. x \<noteq> c) (rev s)) else cur @ s)"
proof (induction s arbitrary: cur)
  case Nil
  then show ?case by simp
next
  case (Cons x xs)
  show ?case
  proof (cases "x = c")
    case True
    have "last (split_from [c] cur (x # xs)) = last (split_from [c] [] xs)"
      using True by (simp add: split_from_nonempty)
    also have "\<dots> = (if c \<in> set xs then rev (takeWhile (\<lambda>x. x \<noteq> c) (rev xs)) else xs)"
      by (simp add: Cons.IH)
    also have "\<dots> = rev (takeWhile (\<lambda>x. x \<noteq> c) (rev (x # xs)))"
      using True by (auto simp: takeWhile_append)
    finally show ?thesis using True by simp
  next
    case False
    then show ?thesis
      by (auto simp: Cons.IH takeWhile_append)
  qed
qed

lemma first_piece_no_dot:
  assumes "t \<noteq> [] \<Longrightarrow> hd t \<notin> set ''/.''"
  shows "\<not> prefix ''.'' (hd (strings_Split t ''/''))"
proof (cases t)
  case Nil
  then show ?thesis by (simp add: strings_Split_def)
next
  case (Cons x xs)
  with assms show ?thesis by (auto simp: strings_Split_def split_from_hd)
qed

lemma last_piece_no_dot:
  assumes "t \<noteq> [] \<Longrightarrow> last t \<notin> set ''/.''"
  shows "\<not> suffix ''.'' (last (strings_Split t ''/''))"
proof (cases "rev t")
  case Nil
  then show ?thesis by (simp add: strings_Split_def)
next
  case (Cons x xs)
  then have t: "t = rev xs @ [x]"
    by (metis rev.simps(2) rev_rev_ident)
  with assms have x: "x \<noteq> CHR ''/''" "x \<noteq> CHR ''.''"
    by auto
  show ?thesis
    using x unfolding strings_Split_def split_from_last t
    by (auto simp: suffix_def)
qed

lemma CleanAndSplit_ends:
  "\<not> prefix ''.'' (hd (CleanAndSplit p)) \<and> \<not> suffix ''.'' (last (CleanAndSplit p))"
proof -
  let ?t = "strings_Trim (Clean p) ''/.''"
  have ends: "?t \<noteq> [] \<Longrightarrow> hd ?t \<notin> set ''/.'' \<and> last ?t \<notin> set ''/.''"
    by (rule strings_Trim_ends) simp_all
  then have "\<not> prefix ''.'' (hd (strings_Split ?t ''/''))"
    by (intro first_piece_no_dot) simp
  moreover from ends have "\<not> suffix ''.'' (last (strings_Split ?t ''/''))"
    by (intro last_piece_no_dot) simp
  ultimately show ?thesis
    by (simp add: CleanAndSplit_def sepString_def sepStringAndDot_def)
qed

text \<open>
  C9: \<open>CleanAndSplit p\<close> is the split at \<open>"/"\<close> of the cleaned path trimmed of the
  bytes \<open>'/'\<close> and \<open>'.'\<close>, and it is never the empty slice. Since the trim
  removes dots as well, the first element never starts with a dot and the last never ends
  with one: \<open>CleanAndSplit "/.hidden" = ["hidden"]\<close>. Both the empty path and
  \<open>"/"\<close> give the one-element slice holding the empty string.
\<close>

theorem CleanAndSplit_shape:
  "CleanAndSplit p = strings_Split (strings_Trim (Clean p) ''/.'') ''/''
   \<and> CleanAndSplit p \<noteq> []
   \<and> \<not> prefix ''.'' (hd (CleanAndSplit p))
   \<and> \<not> suffix ''.'' (last (CleanAndSplit p))
   \<and> CleanAndSplit ''/.hidden'' = [''hidden'']
   \<and> CleanAndSplit '''' = ['''']
   \<and> CleanAndSplit ''/'' = ['''']"
proof -
  have eq: "CleanAndSplit p = strings_Split (strings_Trim (Clean p) ''/.'') ''/''"
    by (simp add: CleanAndSplit_def sepString_def sepStringAndDot_def)
  have ne: "CleanAndSplit p \<noteq> []"
    by (simp add: CleanAndSplit_def strings_Split_def split_from_nonempty)
  have hidden: "CleanAndSplit ''/.hidden'' = [''hidden'']"
    by code_simp
  have empty: "CleanAndSplit '''' = ['''']"
    by code_simp
  have root: "CleanAndSplit ''/'' = ['''']"
    by code_simp
  from eq ne CleanAndSplit_ends [of p] hidden empty root show ?thesis by blast
qed

section \<open>Properties of the container entrypoint\<close>

subsection \<open>Validation\<close>

text \<open>
  C2: when no tailscaled config file is named, \<open>validate\<close> returns an error exactly when
  one of seven conditions holds: a destination IP, a tailnet target IP or a tailnet target
  FQDN together with userspace mode; both tailnet targets at once; proxying of cluster
  traffic via ingress together with userspace mode, without a serve config, or without a
  pod IP.
\<close>

theorem validate_without_configfile:
  assumes "TailscaledConfigFilePath s = ''''"
  shows "validate Load s \<noteq> None \<longleftrightarrow>
           (ProxyTo s \<noteq> '''' \<and> UserspaceMode s)
         \<or> (TailnetTargetIP s \<noteq> '''' \<and> UserspaceMode s)
         \<or> (TailnetTargetFQDN s \<noteq> '''' \<and> UserspaceMode s)
         \<or> (TailnetTargetIP s \<noteq> '''' \<and> TailnetTargetFQDN s \<noteq> '''')
         \<or> (AllowProxyingClusterTrafficViaIngress s \<and> UserspaceMode s)
         \<or> (AllowProxyingClusterTrafficViaIngress s \<and> ServeConfigPath s = '''')
         \<or> (AllowProxyingClusterTrafficViaIngress s \<and> PodIP s = '''')"
  using assms unfolding validate_def by auto

lemma main_cfg_empty:
  "TailscaledConfigFilePath (main_cfg Map.empty) = ''''"
  "UserspaceMode (main_cfg Map.empty)"
  by (simp_all add: main_cfg_def defaultEnv_def defaultBool_def LookupEnv_def Getenv_def
      ParseBool_def)

theorem validate_without_configfile_witness:
  "TailscaledConfigFilePath ((main_cfg Map.empty)\<lparr>ProxyTo := ''10.0.0.7''\<rparr>) = ''''
   \<and> validate (Map.empty :: string \<rightharpoonup> unit) ((main_cfg Map.empty)\<lparr>ProxyTo := ''10.0.0.7''\<rparr>) \<noteq> None"
  using validate_without_configfile
    [of "(main_cfg Map.empty)\<lparr>ProxyTo := ''10.0.0.7''\<rparr>" "Map.empty :: string \<rightharpoonup> unit"]
  by (simp add: main_cfg_empty)

subsection \<open>Boolean environment variables\<close>

lemma Getenv_unset: "env name = None \<Longrightarrow> Getenv env name = ''''"
  by (simp add: Getenv_def LookupEnv_def)

lemma Getenv_set: "env name = Some v \<Longrightarrow> Getenv env name = v"
  by (simp add: Getenv_def LookupEnv_def)

lemma ParseBool_empty: "ParseBool '''' = (False, Some (ErrSyntax ''ParseBool'' ''''))"
  by (simp add: ParseBool_def)

lemma defaultBool_unset: "env name = None \<Longrightarrow> defaultBool env name defVal = defVal"
  by (simp add: defaultBool_def Getenv_unset ParseBool_empty)

text \<open>
  C7: \<open>defaultBool\<close> returns what \<open>strconv.ParseBool\<close> parses from the variable's value
  when the parse succeeds and \<open>defVal\<close> whenever it fails: when the variable is unset,
  when it is set to the empty string, and when it is set to any text that is not one of
  the twelve boolean spellings. So with \<open>TS_USERSPACE\<close> absent \<open>main\<close> runs in userspace
  mode, and with \<open>TS_AUTH_ONCE\<close> absent it does not authenticate only once.
\<close>

theorem defaultBool_parse_or_default:
  "(\<forall>b. ParseBool (Getenv env name) = (b, None) \<longrightarrow> defaultBool env name defVal = b)
   \<and> (\<forall>b err. ParseBool (Getenv env name) = (b, Some err) \<longrightarrow>
         defaultBool env name defVal = defVal)
   \<and> (env name = None \<longrightarrow> defaultBool env name defVal = defVal)
   \<and> (env name = Some '''' \<longrightarrow> defaultBool env name defVal = defVal)
   \<and> (\<forall>v. env name = Some v
         \<and> v \<notin> set [''1'', ''t'', ''T'', ''true'', ''TRUE'', ''True'',
                      ''0'', ''f'', ''F'', ''false'', ''FALSE'', ''False''] \<longrightarrow>
         defaultBool env name defVal = defVal)
   \<and> (env ''TS_USERSPACE'' = None \<longrightarrow> UserspaceMode (main_cfg env))
   \<and> (env ''TS_AUTH_ONCE'' = None \<longrightarrow> \<not> AuthOnce (main_cfg env))"
proof -
  have parsed: "defaultBool env name defVal = b" if "ParseBool (Getenv env name) = (b, None)" for b
    using that by (simp add: defaultBool_def)
  have failed: "defaultBool env name defVal = defVal"
    if "ParseBool (Getenv env name) = (b, Some err)" for b err
    using that by (simp add: defaultBool_def)
  have unset: "defaultBool env name defVal = defVal" if "env name = None"
    using that by (rule defaultBool_unset)
  have blank: "defaultBool env name defVal = defVal" if "env name = Some ''''"
    using that by (simp add: defaultBool_def Getenv_set ParseBool_empty)
  have other: "defaultBool env name defVal = defVal"
    if "env name = Some v
        \<and> v \<notin> set [''1'', ''t'', ''T'', ''true'', ''TRUE'', ''True'',
                     ''0'', ''f'', ''F'', ''false'', ''FALSE'', ''False'']" for v
  proof -
    from that have "ParseBool v = (False, Some (ErrSyntax ''ParseBool'' v))"
      unfolding ParseBool_def by simp
    with that show ?thesis
      by (simp add: defaultBool_def Getenv_set)
  qed
  have userspace: "UserspaceMode (main_cfg env)" if "env ''TS_USERSPACE'' = None"
    using that by (simp add: main_cfg_def defaultBool_unset)
  have authonce: "\<not> AuthOnce (main_cfg env)" if "env ''TS_AUTH_ONCE'' = None"
    using that by (simp add: main_cfg_def defaultBool_unset)
  from parsed failed unset blank other userspace authonce show ?thesis
    by blast
qed

theorem defaultBool_parse_or_default_witness:
  "defaultBool [''TS_AUTH_ONCE'' \<mapsto> ''true''] ''TS_AUTH_ONCE'' False = True
   \<and> defaultBool [''TS_USERSPACE'' \<mapsto> ''''] ''TS_USERSPACE'' True = True
   \<and> defaultBool [''TS_USERSPACE'' \<mapsto> ''no''] ''TS_USERSPACE'' True = True
   \<and> defaultBool Map.empty ''TS_USERSPACE'' True = True
   \<and> UserspaceMode (main_cfg Map.empty)
   \<and> \<not> AuthOnce (main_cfg Map.empty)"
proof -
  have "ParseBool (Getenv [''TS_AUTH_ONCE'' \<mapsto> ''true''] ''TS_AUTH_ONCE'') = (True, None)"
    by (simp add: Getenv_def LookupEnv_def ParseBool_def)
  with defaultBool_parse_or_default [of "[''TS_AUTH_ONCE'' \<mapsto> ''true'']" "''TS_AUTH_ONCE''" False]
  have parsed: "defaultBool [''TS_AUTH_ONCE'' \<mapsto> ''true''] ''TS_AUTH_ONCE'' False = True"
    by blast
  have blank: "defaultBool [''TS_USERSPACE'' \<mapsto> ''''] ''TS_USERSPACE'' True = True"
    using defaultBool_parse_or_default [of "[''TS_USERSPACE'' \<mapsto> '''']" "''TS_USERSPACE''" True]
    by simp
  have other: "defaultBool [''TS_USERSPACE'' \<mapsto> ''no''] ''TS_USERSPACE'' True = True"
    using defaultBool_parse_or_default [of "[''TS_USERSPACE'' \<mapsto> ''no'']" "''TS_USERSPACE''" True]
    by simp
  have unset: "defaultBool Map.empty ''TS_USERSPACE'' True = True
      \<and> UserspaceMode (main_cfg Map.empty) \<and> \<not> AuthOnce (main_cfg Map.empty)"
    using defaultBool_parse_or_default [of Map.empty "''TS_USERSPACE''" True]
    by simp
  from parsed blank other unset show ?thesis
    by blast
qed

subsection \<open>The argv of tailscaled\<close>

lemma state_args_append:
  "state_args cfg args =
     (args @ (if InKubernetes cfg \<and> KubeSecret cfg \<noteq> '''' then
                [''--state=kube:'' @ KubeSecret cfg,
                 ''--statedir='' @ (if StateDir cfg = '''' then ''/tmp'' else StateDir cfg)]
              else if StateDir cfg \<noteq> '''' then [''--statedir='' @ StateDir cfg]
              else [''--state=mem:'', ''--statedir=/tmp'']),
      if InKubernetes cfg \<and> KubeSecret cfg \<noteq> '''' \<and> StateDir cfg = ''''
      then cfg\<lparr>StateDir := ''/tmp''\<rparr> else cfg)"
  by (simp add: state_args_def)

lemma proxy_args_append:
  "proxy_args Fields cfg args =
     args
     @ (if SOCKSProxyAddr cfg \<noteq> '''' then [''--socks5-server='' @ SOCKSProxyAddr cfg] else [])
     @ (if HTTPProxyAddr cfg \<noteq> ''''
        then [''--outbound-http-proxy-listen='' @ HTTPProxyAddr cfg] else [])
     @ (if TailscaledConfigFilePath cfg \<noteq> ''''
        then [''--config='' @ TailscaledConfigFilePath cfg] else [])
     @ (if DaemonExtraArgs cfg \<noteq> '''' then Fields (DaemonExtraArgs cfg) else [])"
  by (simp add: proxy_args_def Let_def)

text \<open>
  C1, as the code has it: \<open>tailscaledArgs\<close> returns an argv when the settings ask for
  userspace networking or \<open>ensureTunFile\<close> succeeds. That argv starts with the socket
  argument, followed by the state arguments: in Kubernetes with a secret name,
  \<open>--state=kube:\<close> with the secret and \<open>--statedir=\<close> with the state directory, which
  is set to \<open>/tmp\<close> in the settings when it was empty; otherwise \<open>--statedir=\<close> alone
  when a state directory is set; otherwise \<open>--state=mem:\<close> and \<open>--statedir=/tmp\<close>.
  Nothing else comes between them and the arguments for the tun device, the two proxies,
  the config file and the extra arguments, which end the argv; the settings come back
  changed in the state directory alone. When userspace networking is off and
  \<open>ensureTunFile\<close> fails, \<open>log.Fatalf\<close> ends the process and no argv is returned.
\<close>

theorem tailscaledArgs_exact_argv:
  "(UserspaceMode cfg \<or> ensureTunFile (Root cfg) = None \<longrightarrow>
      tailscaledArgs ensureTunFile Fields cfg =
        Inr ([''--socket='' @ Socket cfg]
             @ (if InKubernetes cfg \<and> KubeSecret cfg \<noteq> '''' then
                  [''--state=kube:'' @ KubeSecret cfg,
                   ''--statedir='' @ (if StateDir cfg = '''' then ''/tmp'' else StateDir cfg)]
                else if StateDir cfg \<noteq> '''' then [''--statedir='' @ StateDir cfg]
                else [''--state=mem:'', ''--statedir=/tmp''])
             @ (if UserspaceMode cfg then [''--tun=userspace-networking''] else [])
             @ (if SOCKSProxyAddr cfg \<noteq> ''''
                then [''--socks5-server='' @ SOCKSProxyAddr cfg] else [])
             @ (if HTTPProxyAddr cfg \<noteq> ''''
                then [''--outbound-http-proxy-listen='' @ HTTPProxyAddr cfg] else [])
             @ (if TailscaledConfigFilePath cfg \<noteq> ''''
                then [''--config='' @ TailscaledConfigFilePath cfg] else [])
             @ (if DaemonExtraArgs cfg \<noteq> '''' then Fields (DaemonExtraArgs cfg) else []),
             if InKubernetes cfg \<and> KubeSecret cfg \<noteq> '''' \<and> StateDir cfg = ''''
             then cfg\<lparr>StateDir := ''/tmp''\<rparr> else cfg))
   \<and> (\<forall>err. \<not> UserspaceMode cfg \<and> ensureTunFile (Root cfg) = Some err \<longrightarrow>
         tailscaledArgs ensureTunFile Fields cfg =
           Inl (Fatalf ''ensuring that /dev/net/tun exists: %v'' err))"
proof (intro conjI impI allI)
  assume ok: "UserspaceMode cfg \<or> ensureTunFile (Root cfg) = None"
  let ?cfg = "if InKubernetes cfg \<and> KubeSecret cfg \<noteq> '''' \<and> StateDir cfg = ''''
              then cfg\<lparr>StateDir := ''/tmp''\<rparr> else cfg"
  have same: "UserspaceMode ?cfg = UserspaceMode cfg" "Root ?cfg = Root cfg"
    "SOCKSProxyAddr ?cfg = SOCKSProxyAddr cfg" "HTTPProxyAddr ?cfg = HTTPProxyAddr cfg"
    "TailscaledConfigFilePath ?cfg = TailscaledConfigFilePath cfg"
    "DaemonExtraArgs ?cfg = DaemonExtraArgs cfg"
    by simp_all
  show "tailscaledArgs ensureTunFile Fields cfg =
        Inr ([''--socket='' @ Socket cfg]
             @ (if InKubernetes cfg \<and> KubeSecret cfg \<noteq> '''' then
                  [''--state=kube:'' @ KubeSecret cfg,
                   ''--statedir='' @ (if StateDir cfg = '''' then ''/tmp'' else StateDir cfg)]
                else if StateDir cfg \<noteq> '''' then [''--statedir='' @ StateDir cfg]
                else [''--state=mem:'', ''--statedir=/tmp''])
             @ (if UserspaceMode cfg then [''--tun=userspace-networking''] else [])
             @ (if SOCKSProxyAddr cfg \<noteq> ''''
                then [''--socks5-server='' @ SOCKSProxyAddr cfg] else [])
             @ (if HTTPProxyAddr cfg \<noteq> ''''
                then [''--outbound-http-proxy-listen='' @ HTTPProxyAddr cfg] else [])
             @ (if TailscaledConfigFilePath cfg \<noteq> ''''
                then [''--config='' @ TailscaledConfigFilePath cfg] else [])
             @ (if DaemonExtraArgs cfg \<noteq> '''' then Fields (DaemonExtraArgs cfg) else []),
             ?cfg)"
  proof (cases "UserspaceMode cfg")
    case True
    then show ?thesis
      unfolding tailscaledArgs_def state_args_append proxy_args_append same
      by simp
  next
    case False
    with ok have "ensureTunFile (Root cfg) = None"
      by simp
    with False show ?thesis
      unfolding tailscaledArgs_def state_args_append proxy_args_append same
      by simp
  qed
next
  fix err
  assume "\<not> UserspaceMode cfg \<and> ensureTunFile (Root cfg) = Some err"
  then show "tailscaledArgs ensureTunFile Fields cfg =
      Inl (Fatalf ''ensuring that /dev/net/tun exists: %v'' err)"
    by (simp add: tailscaledArgs_def state_args_def)
qed

text \<open>
  In Kubernetes with the default settings the argv is the socket, the kube state, the
  state directory \<open>/tmp\<close> and userspace networking, four arguments; with a state
  directory outside Kubernetes and two extra arguments, \<open>--statedir=\<close> is the only state
  argument; with userspace networking switched off and no tun device to be had, there is
  no argv.
\<close>

theorem tailscaledArgs_exact_argv_witness:
  "UserspaceMode (main_cfg [''KUBERNETES_SERVICE_HOST'' \<mapsto> ''10.96.0.1''])
   \<and> tailscaledArgs (Map.empty :: string \<rightharpoonup> string) Fields_ascii
        (main_cfg [''KUBERNETES_SERVICE_HOST'' \<mapsto> ''10.96.0.1'']) =
      Inr ([''--socket=/tmp/tailscaled.sock'', ''--state=kube:tailscale'', ''--statedir=/tmp'',
            ''--tun=userspace-networking''],
           (main_cfg [''KUBERNETES_SERVICE_HOST'' \<mapsto> ''10.96.0.1''])\<lparr>StateDir := ''/tmp''\<rparr>)
   \<and> UserspaceMode (main_cfg [''TS_STATE_DIR'' \<mapsto> ''/data'',
                              ''TS_TAILSCALED_EXTRA_ARGS'' \<mapsto> ''--port=0  --verbose=1''])
   \<and> tailscaledArgs (Map.empty :: string \<rightharpoonup> string) Fields_ascii
        (main_cfg [''TS_STATE_DIR'' \<mapsto> ''/data'',
                   ''TS_TAILSCALED_EXTRA_ARGS'' \<mapsto> ''--port=0  --verbose=1'']) =
      Inr ([''--socket=/tmp/tailscaled.sock'', ''--statedir=/data'',
            ''--tun=userspace-networking'', ''--port=0'', ''--verbose=1''],
           main_cfg [''TS_STATE_DIR'' \<mapsto> ''/data'',
                     ''TS_TAILSCALED_EXTRA_ARGS'' \<mapsto> ''--port=0  --verbose=1''])
   \<and> \<not> UserspaceMode (main_cfg [''TS_USERSPACE'' \<mapsto> ''0''])
   \<and> tailscaledArgs [''/'' \<mapsto> ''mknod /dev/net/tun: operation not permitted''] Fields_ascii
        (main_cfg [''TS_USERSPACE'' \<mapsto> ''0'']) =
      Inl (Fatalf ''ensuring that /dev/net/tun exists: %v''
             ''mknod /dev/net/tun: operation not permitted'')"
proof -
  let ?kube = "main_cfg [''KUBERNETES_SERVICE_HOST'' \<mapsto> ''10.96.0.1'']"
  let ?dir = "main_cfg [''TS_STATE_DIR'' \<mapsto> ''/data'',
                        ''TS_TAILSCALED_EXTRA_ARGS'' \<mapsto> ''--port=0  --verbose=1'']"
  let ?tun = "main_cfg [''TS_USERSPACE'' \<mapsto> ''0'']"
  have kube: "UserspaceMode ?kube" "InKubernetes ?kube" "KubeSecret ?kube = ''tailscale''"
    "StateDir ?kube = ''''" "Socket ?kube = ''/tmp/tailscaled.sock''"
    "SOCKSProxyAddr ?kube = ''''" "HTTPProxyAddr ?kube = ''''"
    "TailscaledConfigFilePath ?kube = ''''" "DaemonExtraArgs ?kube = ''''"
    by (simp_all add: main_cfg_def defaultEnv_def defaultBool_def LookupEnv_def Getenv_def
        ParseBool_def)
  have dir: "UserspaceMode ?dir" "\<not> InKubernetes ?dir"
    "StateDir ?dir = ''/data''" "Socket ?dir = ''/tmp/tailscaled.sock''"
    "SOCKSProxyAddr ?dir = ''''" "HTTPProxyAddr ?dir = ''''"
    "TailscaledConfigFilePath ?dir = ''''" "DaemonExtraArgs ?dir = ''--port=0  --verbose=1''"
    by (simp_all add: main_cfg_def defaultEnv_def defaultBool_def LookupEnv_def Getenv_def
        ParseBool_def)
  have fields: "Fields_ascii ''--port=0  --verbose=1'' = [''--port=0'', ''--verbose=1'']"
    by (simp add: Fields_ascii_def asciiSpace_def)
  have tun: "\<not> UserspaceMode ?tun" "Root ?tun = ''/''"
    by (simp_all add: main_cfg_def defaultEnv_def defaultBool_def LookupEnv_def Getenv_def
        ParseBool_def)
  have in_kube: "tailscaledArgs (Map.empty :: string \<rightharpoonup> string) Fields_ascii ?kube =
      Inr ([''--socket=/tmp/tailscaled.sock'', ''--state=kube:tailscale'', ''--statedir=/tmp'',
            ''--tun=userspace-networking''], ?kube\<lparr>StateDir := ''/tmp''\<rparr>)"
    using tailscaledArgs_exact_argv [of ?kube "Map.empty :: string \<rightharpoonup> string" Fields_ascii] kube
    by simp
  have with_dir: "tailscaledArgs (Map.empty :: string \<rightharpoonup> string) Fields_ascii ?dir =
      Inr ([''--socket=/tmp/tailscaled.sock'', ''--statedir=/data'',
            ''--tun=userspace-networking'', ''--port=0'', ''--verbose=1''], ?dir)"
    using tailscaledArgs_exact_argv [of ?dir "Map.empty :: string \<rightharpoonup> string" Fields_ascii]
      dir fields
    by simp
  have fatal: "tailscaledArgs [''/'' \<mapsto> ''mknod /dev/net/tun: operation not permitted'']
        Fields_ascii ?tun =
      Inl (Fatalf ''ensuring that /dev/net/tun exists: %v''
             ''mknod /dev/net/tun: operation not permitted'')"
    using tailscaledArgs_exact_argv
      [of ?tun "[''/'' \<mapsto> ''mknod /dev/net/tun: operation not permitted'']" Fields_ascii] tun
    by simp
  from kube(1) in_kube dir(1) with_dir tun(1) fatal show ?thesis
    by blast
qed

text \<open>
  C1 as first stated, that every settings value yields an argv, fails where the tun
  device cannot be created: with \<open>TS_USERSPACE=false\<close> and \<open>ensureTunFile\<close> failing on the
  root \<open>/\<close>, \<open>tailscaledArgs\<close> ends the process.
\<close>

theorem tailscaledArgs_always_returns_counterexample:
  "tailscaledArgs [''/'' \<mapsto> ''permission denied''] Fields_ascii
     (main_cfg [''TS_USERSPACE'' \<mapsto> ''false'']) =
   Inl (Fatalf ''ensuring that /dev/net/tun exists: %v'' ''permission denied'')"
  by (simp add: tailscaledArgs_def state_args_def main_cfg_def defaultEnv_def defaultBool_def
      LookupEnv_def Getenv_def ParseBool_def)

section \<open>Properties of the stat cache\<close>

text \<open>
  C3: a cached entry is returned with a nil error and \<open>fetch\<close> is not called: the world
  \<open>fetch\<close> acts on is as it was, whatever \<open>fetch\<close> is. Without an entry, an error of
  \<open>fetch\<close> is returned and the cache is left as it was; a successful \<open>fetch\<close> has its
  result stored under the name and returned.
\<close>

theorem getOrFetch_cases:
  "(\<forall>item. c name = Some item \<longrightarrow> getOrFetch c name fetch w = ((item, None), c, w))
   \<and> (\<forall>fi err w'. c name = None \<and> fetch name w = ((fi, Some err), w') \<longrightarrow>
         getOrFetch c name fetch w = ((fi, Some err), c, w'))
   \<and> (\<forall>fi w'. c name = None \<and> fetch name w = ((fi, None), w') \<longrightarrow>
         getOrFetch c name fetch w = ((fi, None), c(name \<mapsto> fi), w'))"
  by (simp add: getOrFetch_def)

text \<open>
  A \<open>fetch\<close> that counts its calls in the world: on a hit the count stays 0; on a miss
  it is 1, and the cache changes only when the fetch succeeded.
\<close>

theorem getOrFetch_cases_witness:
  "getOrFetch [''/a'' \<mapsto> ''info-a''] ''/a'' (\<lambda>name n. ((''fetched'', None :: string option), Suc n)) 0
     = ((''info-a'', None), [''/a'' \<mapsto> ''info-a''], 0)
   \<and> getOrFetch [''/a'' \<mapsto> ''info-a''] ''/b'' (\<lambda>name n. (('''', Some ''404''), Suc n)) 0
     = (('''', Some ''404''), [''/a'' \<mapsto> ''info-a''], 1)
   \<and> getOrFetch [''/a'' \<mapsto> ''info-a''] ''/b'' (\<lambda>name n. ((''fetched'', None :: string option), Suc n)) 0
     = ((''fetched'', None), [''/a'' \<mapsto> ''info-a'', ''/b'' \<mapsto> ''fetched''], 1)"
proof -
  let ?c = "[''/a'' \<mapsto> ''info-a'']"
  let ?ok = "\<lambda>(name :: string) n. ((''fetched'', None :: string option), Suc n)"
  let ?bad = "\<lambda>(name :: string) n. (('''', Some ''404''), Suc n)"
  have hit: "getOrFetch ?c ''/a'' ?ok 0 = ((''info-a'', None), ?c, 0)"
    using getOrFetch_cases [of ?c "''/a''" ?ok 0] by simp
  have miss_err: "getOrFetch ?c ''/b'' ?bad 0 = (('''', Some ''404''), ?c, 1)"
    using getOrFetch_cases [of ?c "''/b''" ?bad 0] by simp
  have miss_ok: "getOrFetch ?c ''/b'' ?ok 0
      = ((''fetched'', None), [''/a'' \<mapsto> ''info-a'', ''/b'' \<mapsto> ''fetched''], 1)"
    using getOrFetch_cases [of ?c "''/b''" ?ok 0] by simp
  from hit miss_err miss_ok show ?thesis
    by blast
qed

section \<open>Properties of the Service reconciler\<close>

subsection \<open>Validation of a Service\<close>

text \<open>
  C8: when a Service carries both the tailnet target IP and the tailnet target FQDN
  annotation, the violations start with the message \<open>only one of annotations %s and %s
  can be set\<close>, its format verbs still in place, followed by the two annotation names as
  two elements of their own. The only thing that can follow is the violation for an FQDN
  that is not a MagicDNS name.
\<close>

theorem validateService_unformatted:
  assumes "annotation svc (AnnotationTailnetTargetIP K) \<noteq> ''''"
    and "annotation svc (AnnotationTailnetTargetFQDN K) \<noteq> ''''"
  shows "validateService K Quote svc =
           [''only one of annotations %s and %s can be set'',
            AnnotationTailnetTargetIP K, AnnotationTailnetTargetFQDN K]
           @ (if isMagicDNSName (annotation svc (AnnotationTailnetTargetFQDN K)) then []
              else [''invalid value of annotation '' @ AnnotationTailnetTargetFQDN K @ '': ''
                    @ Quote (annotation svc (AnnotationTailnetTargetFQDN K))
                    @ '' does not appear to be a valid MagicDNS name''])"
  using assms by (simp add: validateService_def)

text \<open>
  A Service with both annotations, the FQDN being a MagicDNS name: the violations are the
  message and the two names, three elements.
\<close>

theorem validateService_unformatted_witness:
  "annotation (example_service\<lparr>Annotations := [''tailscale.com/tailnet-ip'' \<mapsto> ''100.64.0.9'',
        ''tailscale.com/tailnet-fqdn'' \<mapsto> ''db.tail1234.ts.net'']\<rparr>)
      (AnnotationTailnetTargetIP example_names) \<noteq> ''''
   \<and> annotation (example_service\<lparr>Annotations := [''tailscale.com/tailnet-ip'' \<mapsto> ''100.64.0.9'',
        ''tailscale.com/tailnet-fqdn'' \<mapsto> ''db.tail1234.ts.net'']\<rparr>)
      (AnnotationTailnetTargetFQDN example_names) \<noteq> ''''
   \<and> validateService example_names id
       (example_service\<lparr>Annotations := [''tailscale.com/tailnet-ip'' \<mapsto> ''100.64.0.9'',
          ''tailscale.com/tailnet-fqdn'' \<mapsto> ''db.tail1234.ts.net'']\<rparr>)
     = [''only one of annotations %s and %s can be set'',
        ''tailscale.com/tailnet-ip'', ''tailscale.com/tailnet-fqdn'']"
proof -
  let ?svc = "example_service\<lparr>Annotations := [''tailscale.com/tailnet-ip'' \<mapsto> ''100.64.0.9'',
        ''tailscale.com/tailnet-fqdn'' \<mapsto> ''db.tail1234.ts.net'']\<rparr>"
  have ip: "annotation ?svc (AnnotationTailnetTargetIP example_names) = ''100.64.0.9''"
    by (simp add: annotation_def example_names_def)
  have fqdn: "annotation ?svc (AnnotationTailnetTargetFQDN example_names) = ''db.tail1234.ts.net''"
    by (simp add: annotation_def example_names_def)
  have magic: "isMagicDNSName ''db.tail1234.ts.net''"
    by code_simp
  have names: "AnnotationTailnetTargetIP example_names = ''tailscale.com/tailnet-ip''"
    "AnnotationTailnetTargetFQDN example_names = ''tailscale.com/tailnet-fqdn''"
    by (simp_all add: example_names_def)
  have "validateService example_names id ?svc
      = [''only one of annotations %s and %s can be set'',
         ''tailscale.com/tailnet-ip'', ''tailscale.com/tailnet-fqdn'']"
    using validateService_unformatted [of ?svc example_names id] ip fqdn magic names
    by simp
  with ip fqdn show ?thesis
    by simp
qed

subsection \<open>The first occurrence of the finalizer\<close>

lemma index_from_absent: "v \<notin> set s \<Longrightarrow> index_from s v i = - 1"
  by (induction s arbitrary: i) auto

lemma index_from_first:
  "v \<in> set s \<Longrightarrow>
   \<exists>pre post. s = pre @ v # post \<and> v \<notin> set pre \<and> index_from s v i = i + int (length pre)"
proof (induction s arbitrary: i)
  case Nil
  then show ?case by simp
next
  case (Cons x xs)
  show ?case
  proof (cases "v = x")
    case True
    then have "x # xs = [] @ v # xs \<and> v \<notin> set [] \<and> index_from (x # xs) v i = i + int (length ([] :: 'a list))"
      by simp
    then show ?thesis by blast
  next
    case False
    with Cons.prems have "v \<in> set xs" by simp
    from Cons.IH [OF this, of "i + 1"] obtain pre post where
      "xs = pre @ v # post" "v \<notin> set pre" "index_from xs v (i + 1) = i + 1 + int (length pre)"
      by blast
    with False have "x # xs = (x # pre) @ v # post \<and> v \<notin> set (x # pre)
        \<and> index_from (x # xs) v i = i + int (length (x # pre))"
      by simp
    then show ?thesis by blast
  qed
qed

lemma slices_Index_absent: "v \<notin> set s \<Longrightarrow> slices_Index s v < 0"
  by (simp add: slices_Index_def index_from_absent)

lemma slices_Index_first:
  assumes "v \<in> set s"
  shows "\<exists>pre post. s = pre @ v # post \<and> v \<notin> set pre \<and> \<not> slices_Index s v < 0
           \<and> take (nat (slices_Index s v)) s @ drop (nat (slices_Index s v + 1)) s = pre @ post"
proof -
  from index_from_first [OF assms, of 0] obtain pre post where
    s: "s = pre @ v # post" and pre: "v \<notin> set pre"
    and ix: "slices_Index s v = int (length pre)"
    by (auto simp: slices_Index_def)
  have "nat (int (length pre) + 1) = Suc (length pre)"
    by simp
  with s ix have "take (nat (slices_Index s v)) s @ drop (nat (slices_Index s v + 1)) s = pre @ post"
    by simp
  with s pre ix show ?thesis
    by auto
qed

subsection \<open>Cleanup\<close>

text \<open>
  C10: when the finalizer is among the Service's finalizers and the cleanup of the child
  resources reports that it is done, without an error, \<open>maybeCleanup\<close> hands to \<open>Update\<close>
  the Service with the first occurrence of the finalizer removed: the finalizers before
  it and after it stay, in their order. When the finalizer is absent, the Service comes
  back as it was and the cluster is not touched; only the reconciler's bookkeeping runs.
\<close>

theorem maybeCleanup_removes_first_finalizer:
  "(FinalizerName K \<in> set (Finalizers svc)
      \<and> Cleanup ops (childResourceLabels K (Name svc) (Namespace svc) ''svc'') w
          = ((True, None), w1) \<longrightarrow>
      (\<exists>pre post. Finalizers svc = pre @ FinalizerName K # post
          \<and> FinalizerName K \<notin> set pre
          \<and> maybeCleanup ops K a svc w
              = finish_cleanup ops a (Update ops (svc\<lparr>Finalizers := pre @ post\<rparr>) w1)))
   \<and> (FinalizerName K \<notin> set (Finalizers svc) \<longrightarrow>
        maybeCleanup ops K a svc w = (None, svc, untrack ops a (UID svc), w))"
proof (intro conjI impI)
  assume "FinalizerName K \<in> set (Finalizers svc)
      \<and> Cleanup ops (childResourceLabels K (Name svc) (Namespace svc) ''svc'') w
          = ((True, None), w1)"
  then have present: "FinalizerName K \<in> set (Finalizers svc)"
    and cleaned: "Cleanup ops (childResourceLabels K (Name svc) (Namespace svc) ''svc'') w
          = ((True, None), w1)"
    by simp_all
  from slices_Index_first [OF present] obtain pre post where
    split: "Finalizers svc = pre @ FinalizerName K # post" "FinalizerName K \<notin> set pre"
    and ix: "\<not> slices_Index (Finalizers svc) (FinalizerName K) < 0"
    and cut: "take (nat (slices_Index (Finalizers svc) (FinalizerName K))) (Finalizers svc)
        @ drop (nat (slices_Index (Finalizers svc) (FinalizerName K) + 1)) (Finalizers svc)
        = pre @ post"
    by blast
  have "maybeCleanup ops K a svc w
      = finish_cleanup ops a (Update ops (svc\<lparr>Finalizers := pre @ post\<rparr>) w1)"
    unfolding maybeCleanup_def Let_def using ix cut cleaned by simp
  with split show "\<exists>pre post. Finalizers svc = pre @ FinalizerName K # post
      \<and> FinalizerName K \<notin> set pre
      \<and> maybeCleanup ops K a svc w
          = finish_cleanup ops a (Update ops (svc\<lparr>Finalizers := pre @ post\<rparr>) w1)"
    by blast
next
  assume "FinalizerName K \<notin> set (Finalizers svc)"
  then show "maybeCleanup ops K a svc w = (None, svc, untrack ops a (UID svc), w)"
    by (simp add: maybeCleanup_def slices_Index_absent)
qed

lemma first_split_remove1: "s = pre @ v # post \<Longrightarrow> v \<notin> set pre \<Longrightarrow> pre @ post = remove1 v s"
  by (simp add: remove1_append)

text \<open>
  On a Service with the finalizer twice among four, the recording cluster sees one cleanup
  and one update, of the Service without the first of the two; on a Service without
  finalizers it sees nothing.
\<close>

theorem maybeCleanup_removes_first_finalizer_witness:
  "FinalizerName example_names \<in> set (Finalizers example_service)
   \<and> Cleanup (recording_cluster None)
        (childResourceLabels example_names (Name example_service) (Namespace example_service) ''svc'')
        [] = ((True, None), [CleanupCall])
   \<and> maybeCleanup (recording_cluster None) example_names example_reconciler example_service []
       = (None,
          example_service\<lparr>Finalizers := [''example.com/keep'', ''example.com/audit'',
                                           ''tailscale.com/finalizer'']\<rparr>,
          \<lparr>isDefaultLoadBalancer = False, managedIngressProxies = [],
            managedEgressProxies = [], gaugeIngressProxies = 0, gaugeEgressProxies = 0\<rparr>,
          [CleanupCall,
           UpdateCall (example_service\<lparr>Finalizers := [''example.com/keep'', ''example.com/audit'',
                                                       ''tailscale.com/finalizer'']\<rparr>)])
   \<and> FinalizerName example_names \<notin> set (Finalizers zero_service)
   \<and> maybeCleanup (recording_cluster None) example_names example_reconciler zero_service []
       = (None, zero_service, example_reconciler, [])"
proof -
  let ?ops = "recording_cluster None"
  let ?fin = "FinalizerName example_names"
  have fin: "?fin = ''tailscale.com/finalizer''"
    by (simp add: example_names_def)
  have present: "?fin \<in> set (Finalizers example_service)"
    by (simp add: fin example_service_def)
  have cleaned: "Cleanup ?ops
      (childResourceLabels example_names (Name example_service) (Namespace example_service) ''svc'')
      [] = ((True, None), [CleanupCall])"
    by (simp add: recording_cluster_def)
  from maybeCleanup_removes_first_finalizer
    [of example_names example_service ?ops "[]" "[CleanupCall]" example_reconciler]
    present cleaned
  obtain pre post where
    split: "Finalizers example_service = pre @ ?fin # post" "?fin \<notin> set pre"
    and run: "maybeCleanup ?ops example_names example_reconciler example_service []
      = finish_cleanup ?ops example_reconciler
          (Update ?ops (example_service\<lparr>Finalizers := pre @ post\<rparr>) [CleanupCall])"
    by blast
  from split have "pre @ post = remove1 ?fin (Finalizers example_service)"
    by (rule first_split_remove1)
  then have rest: "pre @ post = [''example.com/keep'', ''example.com/audit'', ''tailscale.com/finalizer'']"
    by (simp add: fin example_service_def)
  have removed: "maybeCleanup ?ops example_names example_reconciler example_service []
      = (None,
         example_service\<lparr>Finalizers := [''example.com/keep'', ''example.com/audit'',
                                          ''tailscale.com/finalizer'']\<rparr>,
         \<lparr>isDefaultLoadBalancer = False, managedIngressProxies = [],
           managedEgressProxies = [], gaugeIngressProxies = 0, gaugeEgressProxies = 0\<rparr>,
         [CleanupCall,
          UpdateCall (example_service\<lparr>Finalizers := [''example.com/keep'', ''example.com/audit'',
                                                      ''tailscale.com/finalizer'']\<rparr>)])"
    unfolding run rest
    by (simp add: finish_cleanup_def recording_cluster_def untrack_def example_reconciler_def
        example_service_def)
  have absent: "?fin \<notin> set (Finalizers zero_service)"
    by (simp add: zero_service_def)
  with maybeCleanup_removes_first_finalizer
    [of example_names zero_service ?ops "[]" "[]" example_reconciler]
  have "maybeCleanup ?ops example_names example_reconciler zero_service []
      = (None, zero_service, untrack ?ops example_reconciler (UID zero_service), [])"
    by blast
  then have untouched: "maybeCleanup ?ops example_names example_reconciler zero_service []
      = (None, zero_service, example_reconciler, [])"
    by (simp add: untrack_def recording_cluster_def example_reconciler_def zero_service_def)
  from present cleaned removed absent untouched show ?thesis
    by blast
qed

subsection \<open>Reconcile\<close>

text \<open>
  C5: when \<open>Get\<close> reports that the Service is not found, \<open>Reconcile\<close> returns the empty
  result and a nil error, and neither cleans up nor provisions: the reconciler is as it
  was and the world is as \<open>Get\<close> left it, whatever the other operations would do. Any
  other error of \<open>Get\<close> comes back wrapped, as a non-nil error, again with nothing else
  done.
\<close>

theorem Reconcile_get_failed:
  "(\<forall>err svc w1. Get ops req w = ((err, svc), w1) \<and> IsNotFound ops err \<longrightarrow>
      Reconcile ops K maybeProvision a req w = ((empty_Result, None), a, w1))
   \<and> (\<forall>e svc w1. Get ops req w = ((Some e, svc), w1) \<and> \<not> IsNotFound ops (Some e) \<longrightarrow>
      Reconcile ops K maybeProvision a req w
        = ((empty_Result, Some (Errorf ''failed to get svc: %w'' e)), a, w1))"
  by (simp add: Reconcile_def)

text \<open>
  The recording cluster without a Service sees the one call of \<open>Get\<close>. With an API
  server that answers \<open>Get\<close> with another error, that error comes back wrapped.
\<close>

theorem Reconcile_get_failed_witness:
  "IsNotFound (recording_cluster None) (Some ''NotFound'')
   \<and> Reconcile (recording_cluster None) example_names recording_provision example_reconciler
        (''default'', ''web'') []
      = ((empty_Result, None), example_reconciler, [GetCall (''default'', ''web'')])
   \<and> \<not> IsNotFound ((recording_cluster None)
          \<lparr>Get := (\<lambda>req w. ((Some ''Forbidden'', zero_service), w @ [GetCall req]))\<rparr>)
        (Some ''Forbidden'')
   \<and> Reconcile ((recording_cluster None)
          \<lparr>Get := (\<lambda>req w. ((Some ''Forbidden'', zero_service), w @ [GetCall req]))\<rparr>)
        example_names recording_provision example_reconciler (''default'', ''web'') []
      = ((empty_Result, Some (Errorf ''failed to get svc: %w'' ''Forbidden'')),
         example_reconciler, [GetCall (''default'', ''web'')])"
proof -
  let ?ops = "recording_cluster None"
  let ?denied = "?ops\<lparr>Get := (\<lambda>req w. ((Some ''Forbidden'', zero_service), w @ [GetCall req]))\<rparr>"
  have nf: "IsNotFound ?ops (Some ''NotFound'')" "\<not> IsNotFound ?denied (Some ''Forbidden'')"
    by (simp_all add: recording_cluster_def)
  have get: "Get ?ops (''default'', ''web'') []
      = ((Some ''NotFound'', zero_service), [GetCall (''default'', ''web'')])"
    by (simp add: recording_cluster_def)
  have get_denied: "Get ?denied (''default'', ''web'') []
      = ((Some ''Forbidden'', zero_service), [GetCall (''default'', ''web'')])"
    by simp
  from Reconcile_get_failed
    [of ?ops "(''default'', ''web'')" "[]" example_names recording_provision example_reconciler]
    get nf(1)
  have gone: "Reconcile ?ops example_names recording_provision example_reconciler
        (''default'', ''web'') []
      = ((empty_Result, None), example_reconciler, [GetCall (''default'', ''web'')])"
    by blast
  from Reconcile_get_failed
    [of ?denied "(''default'', ''web'')" "[]" example_names recording_provision example_reconciler]
    get_denied nf(2)
  have wrapped: "Reconcile ?denied example_names recording_provision example_reconciler
        (''default'', ''web'') []
      = ((empty_Result, Some (Errorf ''failed to get svc: %w'' ''Forbidden'')),
         example_reconciler, [GetCall (''default'', ''web'')])"
    by blast
  from nf(1) gone nf(2) wrapped show ?thesis
    by blast
qed

end
